theory Spec2Isabelle
  imports Complex_Main "HOL-Library.Word" "HOL-Library.Monad_Syntax"
begin

section \<open>vpROSRobot: the odometry integrator and the guarded accessors\<close>

text \<open>
  A shallow embedding of \<^verbatim>\<open>src/robot/vpROSRobot.cpp\<close>. Every member function is a
  function on the member variables of the object, passed and returned explicitly.

  \<^item> The C++ type \<^verbatim>\<open>double\<close> is the type variable \<open>'d\<close>. Its operations \<open>+\<close>, \<open>-\<close>, \<open>*\<close> and
    \<open>/\<close> and its values \<open>0\<close> and \<open>1\<close> come from the syntactic classes of HOL, which state
    no law: nothing is assumed of them, not even \<open>x - x = 0\<close>. Binary64 with its rounding,
    its infinities and its NaN is one such type, the reals are another. Each operator of
    the source is one operation of \<open>'d\<close>, applied in the order of the source.
  \<^item> The conversion \<^verbatim>\<open>(double)\<close> of an unsigned 32-bit integer is the parameter \<open>dbl\<close>.
    The literal \<^verbatim>\<open>1000000000.0\<close> is \<open>dbl 1000000000\<close>: the integer fits in 32 bits.
  \<^item> A ViSP \<^verbatim>\<open>vpColVector\<close> is a list (it is sized at run time); a
    \<^verbatim>\<open>vpTranslationVector\<close> and a \<^verbatim>\<open>vpQuaternionVector\<close> have a fixed size and are
    tuples.
  \<^item> The stamp of a ROS message is a pair of unsigned 32-bit integers. The members
    \<^verbatim>\<open>_sec\<close> and \<^verbatim>\<open>_nsec\<close> that store it are declared in \<^verbatim>\<open>vpROSRobot.h\<close> and are taken to
    have the type of the stamp. They are named \<open>sec\<close> and \<open>nsec\<close> here, and the other
    members lose their leading underscore too, as an Isabelle name cannot start with one.
  \<^item> A \<^verbatim>\<open>throw\<close> is the result \<open>Inl e\<close>. An output parameter is an argument that is
    returned: where the function did not assign it, the caller's value comes back.
  \<^item> The busy wait \<^verbatim>\<open>while(!odom_mutex);\<close> is a loop that may not end: a guarded function
    returns an \<open>option\<close>, and \<open>None\<close> says that the call never returns.
\<close>

subsection \<open>Data\<close>

text \<open>
  The control frames of ViSP's \<^verbatim>\<open>vpRobot\<close>; the source singles out \<^verbatim>\<open>REFERENCE_FRAME\<close> and
  treats all the others alike. The two codes of \<^verbatim>\<open>vpRobotException\<close> that the source
  throws: the specification calls \<open>wrongStateError\<close> UnsupportedFrame and
  \<open>constructionError\<close> ConfigurationConflict.
\<close>

datatype vpControlFrameType = REFERENCE_FRAME | ARTICULAR_FRAME | CAMERA_FRAME | MIXT_FRAME

datatype vpRobotException = constructionError | wrongStateError

type_synonym 'd vpColVector = "'d list"
type_synonym 'd vpTranslationVector = "'d \<times> 'd \<times> 'd"
type_synonym 'd vpQuaternionVector = "'d \<times> 'd \<times> 'd \<times> 'd"

record timespec =
  tv_sec :: int
  tv_nsec :: int

text \<open>
  \<^verbatim>\<open>geometry_msgs::Twist\<close> and the fields of \<^verbatim>\<open>nav_msgs::Odometry\<close> that the callback
  reads: \<^verbatim>\<open>header.stamp\<close>, \<^verbatim>\<open>pose.pose.position\<close>, \<^verbatim>\<open>pose.pose.orientation\<close> (x, y, z, w),
  \<^verbatim>\<open>twist.twist.linear\<close> and \<^verbatim>\<open>twist.twist.angular\<close>.
\<close>

record 'd Twist =
  linear :: "'d \<times> 'd \<times> 'd"
  angular :: "'d \<times> 'd \<times> 'd"

record 'd Odometry =
  stamp_sec :: "32 word"
  stamp_nsec :: "32 word"
  position :: "'d \<times> 'd \<times> 'd"
  orientation :: "'d \<times> 'd \<times> 'd \<times> 'd"
  twist :: "'d Twist"

text \<open>
  The five fields of the state record that the specification names, and the log of the
  accesses to them. The log is a ghost member: the functions below append to it at every
  statement that reads or writes one of the fields, with the value of the guard at that
  moment, and nothing ever reads it.
\<close>

datatype field =
  Position | Orientation | LastSampleTime | DisplacementAccumulator | DisplacementBaseline

datatype access = Rd field | Wr field

record 'd robot =
  isInitialized :: bool
  odom_mutex :: bool
  q :: "'d vpQuaternionVector"
  p :: "'d vpTranslationVector"
  sec :: "32 word"
  nsec :: "32 word"
  displacement :: "'d vpColVector"
  pose_prev :: "'d vpColVector"
  master_uri :: string
  topic_cmd :: string
  topic_odom :: string
  nodespace :: string
  nodeHandle :: bool
  cmdvel :: "string option"
  odom :: "string option"
  spinner :: bool
  published :: "'d Twist list"
  accesses :: "(access \<times> bool) list"

text \<open>
  The transport runtime of the process, as far as \<^verbatim>\<open>init\<close> looks at it:
  \<^verbatim>\<open>ros::isInitialized()\<close> and \<^verbatim>\<open>ros::master::getURI()\<close>.
\<close>

record ros =
  ros_isInitialized :: bool
  ros_master_getURI :: string

subsection \<open>Constructor\<close>

text \<open>
  \<^verbatim>\<open>vpColVector(6)\<close> is six zeros. The handles \<^verbatim>\<open>n\<close> (here \<open>nodeHandle\<close>), \<^verbatim>\<open>cmdvel\<close>,
  \<^verbatim>\<open>odom\<close> and \<^verbatim>\<open>spinner\<close> are not set by the constructor: no node, no topic, no
  spinner. \<open>published\<close> holds the messages handed to \<^verbatim>\<open>cmdvel.publish\<close>, oldest first.
\<close>

definition vpROSRobot :: "'d::{zero,one} robot" where
  "vpROSRobot =
     \<lparr> isInitialized = False,
       odom_mutex = True,
       q = (0, 0, 0, 1),
       p = (0, 0, 0),
       sec = 0,
       nsec = 0,
       displacement = replicate 6 0,
       pose_prev = replicate 6 0,
       master_uri = ''http://127.0.0.1:11311'',
       topic_cmd = ''cmd_vel'',
       topic_odom = ''odom'',
       nodespace = [],
       nodeHandle = False,
       cmdvel = None,
       odom = None,
       spinner = False,
       published = [],
       accesses = [] \<rparr>"

subsection \<open>The guard\<close>

text \<open>
  \<^verbatim>\<open>while(!odom_mutex);\<close> in a single execution context: the loop body is empty, so the
  flag it waits for does not change.
\<close>

partial_function (option) spin :: "'d robot \<Rightarrow> 'd robot option" where
  "spin s = (if \<not> odom_mutex s then spin s else Some s)"

text \<open>The guard is held between \<^verbatim>\<open>odom_mutex = false\<close> and \<^verbatim>\<open>odom_mutex = true\<close>.\<close>

definition held :: "'d robot \<Rightarrow> bool" where
  "held s = (\<not> odom_mutex s)"

definition touch :: "access \<Rightarrow> 'd robot \<Rightarrow> 'd robot" where
  "touch a s = s\<lparr>accesses := accesses s @ [(a, held s)]\<rparr>"

subsection \<open>odomCallback\<close>

text \<open>\<^verbatim>\<open>v[i] += x\<close> on a \<^verbatim>\<open>vpColVector\<close>: one addition of \<open>'d\<close>.\<close>

definition add_at :: "nat \<Rightarrow> 'd::plus \<Rightarrow> 'd vpColVector \<Rightarrow> 'd vpColVector" where
  "add_at i x v = v[i := v ! i + x]"

text \<open>
  \<^verbatim>\<open>((double)stamp.sec - (double)_sec) + ((double)stamp.nsec - (double)_nsec) / 1000000000.0\<close>:
  four conversions, two subtractions, one division and one addition of \<open>'d\<close>.
\<close>

definition dt_of ::
  "(32 word \<Rightarrow> 'd) \<Rightarrow> 'd Odometry \<Rightarrow> 'd robot \<Rightarrow> 'd::{plus,minus,inverse}" where
  "dt_of dbl msg s =
     (dbl (stamp_sec msg) - dbl (sec s))
       + (dbl (stamp_nsec msg) - dbl (nsec s)) / dbl 1000000000"

text \<open>
  The six \<^verbatim>\<open>displacement[i] += ... * dt\<close> of the callback, in the order of the source: each
  is one multiplication and one addition of \<open>'d\<close>. The callback logs them as one read
  and one write of the accumulator.
\<close>

definition accumulate :: "'d Twist \<Rightarrow> 'd \<Rightarrow> 'd vpColVector \<Rightarrow> 'd::{plus,times} vpColVector" where
  "accumulate tw dt d =
     (let (lx, ly, lz) = linear tw;
          (ax, ay, az) = angular tw;
          d = add_at 0 (lx * dt) d;
          d = add_at 1 (ly * dt) d;
          d = add_at 2 (lz * dt) d;
          d = add_at 3 (ax * dt) d;
          d = add_at 4 (ay * dt) d;
          d = add_at 5 (az * dt) d
      in d)"

definition odomCallback ::
  "(32 word \<Rightarrow> 'd) \<Rightarrow> 'd Odometry \<Rightarrow> 'd robot \<Rightarrow> 'd::{plus,minus,times,inverse} robot option" where
  "odomCallback dbl msg s0 = do {
     s1 \<leftarrow> spin s0;
     let s2 = s1\<lparr>odom_mutex := False\<rparr>;
     let s3 = touch (Wr Position) (s2\<lparr>p := position msg\<rparr>);
     let s4 = touch (Wr Orientation) (s3\<lparr>q := orientation msg\<rparr>);
     let s5 = touch (Rd LastSampleTime) s4;
     let s6 =
       (if sec s5 \<noteq> 0 \<or> nsec s5 \<noteq> 0 then
          let s = touch (Rd LastSampleTime) s5;
              dt = dt_of dbl msg s;
              s = touch (Rd DisplacementAccumulator) s;
              d = accumulate (twist msg) dt (displacement s)
          in touch (Wr DisplacementAccumulator) (s\<lparr>displacement := d\<rparr>)
        else s5);
     let s7 = touch (Wr LastSampleTime) (s6\<lparr>sec := stamp_sec msg, nsec := stamp_nsec msg\<rparr>);
     Some (s7\<lparr>odom_mutex := True\<rparr>)
   }"

subsection \<open>getPosition\<close>

text \<open>
  The conversion \<^verbatim>\<open>vpRxyzVector V(vpRotationMatrix R(q))\<close> is ViSP's: it is the parameter
  \<open>rxyz\<close>. \<^verbatim>\<open>pose.resize(6)\<close> followed by the six assignments gives a vector of exactly
  these six components.
\<close>

definition getPosition ::
  "('d vpQuaternionVector \<Rightarrow> 'd \<times> 'd \<times> 'd) \<Rightarrow> vpControlFrameType \<Rightarrow> 'd vpColVector \<Rightarrow> 'd robot
     \<Rightarrow> ((vpRobotException + unit) \<times> 'd vpColVector \<times> 'd robot) option" where
  "getPosition rxyz frame pose s0 = do {
     s1 \<leftarrow> spin s0;
     let s2 = s1\<lparr>odom_mutex := False\<rparr>;
     if frame = REFERENCE_FRAME then
       let s3 = touch (Rd Position) s2;
           (p0, p1, p2) = p s3;
           s4 = touch (Rd Orientation) s3;
           (V0, V1, V2) = rxyz (q s4)
       in Some (Inr (), [p0, p1, p2, V0, V1, V2], s4\<lparr>odom_mutex := True\<rparr>)
     else Some (Inl wrongStateError, pose, s2)
   }"

subsection \<open>getDisplacement\<close>

text \<open>
  \<^verbatim>\<open>pose_cur - pose_prev\<close> on two vectors of the same size: one subtraction of \<open>'d\<close> for
  each row. Both members are made with six rows and no function resizes them. \<^verbatim>\<open>tv_sec\<close>
  and \<^verbatim>\<open>tv_nsec\<close> are signed and wide enough for every unsigned 32-bit value.
\<close>

definition vpColVector_minus :: "'d vpColVector \<Rightarrow> 'd vpColVector \<Rightarrow> 'd::minus vpColVector" where
  "vpColVector_minus a b = map2 (-) a b"

definition getDisplacement ::
  "vpControlFrameType \<Rightarrow> 'd vpColVector \<Rightarrow> timespec \<Rightarrow> 'd robot
     \<Rightarrow> ((vpRobotException + unit) \<times> 'd::minus vpColVector \<times> timespec \<times> 'd robot) option" where
  "getDisplacement frame dis timestamp s0 = do {
     s1 \<leftarrow> spin s0;
     let s2 = s1\<lparr>odom_mutex := False\<rparr>;
     let s3 = touch (Rd DisplacementAccumulator) s2;
     let pose_cur = displacement s3;
     let s4 = touch (Rd LastSampleTime) s3;
     let timestamp = timestamp\<lparr>tv_sec := uint (sec s4), tv_nsec := uint (nsec s4)\<rparr>;
     let s5 = s4\<lparr>odom_mutex := True\<rparr>;
     if frame = REFERENCE_FRAME then
       let s6 = touch (Rd DisplacementBaseline) s5;
           dis = vpColVector_minus pose_cur (pose_prev s6);
           s7 = touch (Wr DisplacementBaseline) (s6\<lparr>pose_prev := pose_cur\<rparr>)
       in Some (Inr (), dis, timestamp, s7)
     else Some (Inl wrongStateError, dis, timestamp, s5)
   }"

text \<open>
  The overload without a timestamp passes a local \<^verbatim>\<open>timespec\<close>. The local is not
  initialised and is assigned before anything reads it; the model starts it at zero.
\<close>

definition getDisplacement2 ::
  "vpControlFrameType \<Rightarrow> 'd vpColVector \<Rightarrow> 'd robot
     \<Rightarrow> ((vpRobotException + unit) \<times> 'd::minus vpColVector \<times> 'd robot) option" where
  "getDisplacement2 frame dis s0 = do {
     (r, dis, timestamp, s1) \<leftarrow> getDisplacement frame dis \<lparr>tv_sec = 0, tv_nsec = 0\<rparr> s0;
     Some (r, dis, s1)
   }"

subsection \<open>setVelocity\<close>

text \<open>
  \<^verbatim>\<open>cmdvel.publish(msg)\<close> hands the message to the transport: the model appends it to
  \<open>published\<close>. The source reads \<^verbatim>\<open>vel[0]\<close> to \<^verbatim>\<open>vel[5]\<close> without a check of the size.
\<close>

definition setVelocity ::
  "vpControlFrameType \<Rightarrow> 'd vpColVector \<Rightarrow> 'd robot \<Rightarrow> (vpRobotException + unit) \<times> 'd robot" where
  "setVelocity frame vel s =
     (if frame = REFERENCE_FRAME then
        let msg = \<lparr> linear = (vel ! 0, vel ! 1, vel ! 2),
                    angular = (vel ! 3, vel ! 4, vel ! 5) \<rparr>
        in (Inr (), s\<lparr>published := published s @ [msg]\<rparr>)
      else (Inl wrongStateError, s))"

subsection \<open>init\<close>

text \<open>
  \<^verbatim>\<open>ros::init\<close> belongs to the transport. What the model keeps of it: the runtime is
  initialised afterwards, and an argument \<^verbatim>\<open>__master:=URI\<close> selects the master.
\<close>

definition ros_init :: "string list \<Rightarrow> ros \<Rightarrow> ros" where
  "ros_init argv r =
     r\<lparr> ros_isInitialized := True,
        ros_master_getURI :=
          (case List.find (\<lambda>a. take 10 a = ''__master:='') argv of
             Some a \<Rightarrow> drop 10 a
           | None \<Rightarrow> ros_master_getURI r) \<rparr>"

text \<open>\<^verbatim>\<open>init(int argc, char **argv)\<close>: \<open>argv\<close> is the list of the \<open>argc\<close> arguments.\<close>

definition init_argv :: "string list \<Rightarrow> 'd robot \<Rightarrow> ros \<Rightarrow> 'd robot \<times> ros" where
  "init_argv argv s r =
     (if \<not> isInitialized s then
        let r = (if \<not> ros_isInitialized r then ros_init argv r else r);
            s = s\<lparr>nodeHandle := True\<rparr>;
            s = s\<lparr>cmdvel := Some (nodespace s @ topic_cmd s)\<rparr>;
            s = s\<lparr>odom := Some (nodespace s @ topic_odom s)\<rparr>;
            s = s\<lparr>spinner := True\<rparr>
        in (s\<lparr>isInitialized := True\<rparr>, r)
      else (s, r))"

text \<open>
  \<^verbatim>\<open>init()\<close>. Past the test of the master, on an object that is not initialised, the
  source declares \<^verbatim>\<open>char *argv[2]\<close> and at once copies a string to \<^verbatim>\<open>argv[0]\<close> with
  \<^verbatim>\<open>strcpy\<close>, through a pointer that was never set. C++ gives this no meaning, and the model
  gives this path no result: \<open>Undefined\<close>, with no object and no transport after it. The
  two other paths are defined.
\<close>

datatype 'a behaviour = Undefined | Defined 'a

definition init :: "'d robot \<Rightarrow> ros \<Rightarrow> ((vpRobotException + unit) \<times> 'd robot \<times> ros) behaviour" where
  "init s r =
     (if ros_isInitialized r \<and> ros_master_getURI r \<noteq> master_uri s then
        Defined (Inl constructionError, s, r)
      else if \<not> isInitialized s then
        Undefined
      else Defined (Inr (), s, r))"

subsection \<open>Sequences of samples\<close>

text \<open>The callback runs once for each sample, in the order of arrival.\<close>

fun deliver ::
  "(32 word \<Rightarrow> 'd) \<Rightarrow> 'd Odometry list \<Rightarrow> 'd robot
     \<Rightarrow> 'd::{plus,minus,times,inverse} robot option" where
  "deliver dbl [] s = Some s"
| "deliver dbl (msg # msgs) s =
     (case odomCallback dbl msg s of None \<Rightarrow> None | Some s' \<Rightarrow> deliver dbl msgs s')"

text \<open>
  The stamp of a sample in nanoseconds, an integer: the order of two stamps is the order
  of these. The six velocities of a sample in the order of the accumulator.
\<close>

definition stamp_ns :: "'d Odometry \<Rightarrow> nat" where
  "stamp_ns msg = unat (stamp_sec msg) * 1000000000 + unat (stamp_nsec msg)"

definition velocity :: "'d Odometry \<Rightarrow> 'd list" where
  "velocity msg =
     (let (lx, ly, lz) = linear (twist msg); (ax, ay, az) = angular (twist msg)
      in [lx, ly, lz, ax, ay, az])"

text \<open>
  The time between two samples as the callback computes it when the second arrives after
  the first: the formula of \<open>dt_of\<close> on the two stamps.
\<close>

definition dt_between ::
  "(32 word \<Rightarrow> 'd) \<Rightarrow> 'd Odometry \<Rightarrow> 'd Odometry \<Rightarrow> 'd::{plus,minus,inverse}" where
  "dt_between dbl m0 m1 =
     (dbl (stamp_sec m1) - dbl (stamp_sec m0))
       + (dbl (stamp_nsec m1) - dbl (stamp_nsec m0)) / dbl 1000000000"

text \<open>
  The sum that the specification gives for component \<open>i\<close> of the accumulator after the
  samples \<open>msgs\<close>, taken in the arithmetic of \<open>'d\<close>: from \<open>a\<close>, one product and one addition
  for each sample from the second on, in the order of arrival. The samples are counted
  from 0 here. \<open>weighted_sum\<close> starts from zero.
\<close>

definition sum_from ::
  "'d \<Rightarrow> (32 word \<Rightarrow> 'd) \<Rightarrow> 'd Odometry list \<Rightarrow> nat \<Rightarrow> 'd::{plus,minus,times,inverse}" where
  "sum_from a dbl msgs i =
     foldl (\<lambda>acc k. acc + velocity (msgs ! k) ! i * dt_between dbl (msgs ! (k - 1)) (msgs ! k))
       a [1..<length msgs]"

definition weighted_sum ::
  "(32 word \<Rightarrow> 'd) \<Rightarrow> 'd Odometry list \<Rightarrow> nat \<Rightarrow> 'd::{zero,plus,minus,times,inverse}" where
  "weighted_sum dbl msgs i = sum_from 0 dbl msgs i"

text \<open>A sample stamped with a whole second, at the origin, with the given velocities.\<close>

definition sample_at ::
  "32 word \<Rightarrow> 'd \<times> 'd \<times> 'd \<Rightarrow> 'd \<times> 'd \<times> 'd \<Rightarrow> 'd::{zero,one} Odometry" where
  "sample_at t lin ang =
     \<lparr> stamp_sec = t, stamp_nsec = 0, position = (0, 0, 0), orientation = (0, 0, 0, 1),
       twist = \<lparr> linear = lin, angular = ang \<rparr> \<rparr>"

text \<open>Two reads of the displacement in the reference frame, one after the other.\<close>

definition getDisplacement_twice ::
  "'d robot \<Rightarrow> ('d::minus vpColVector \<times> 'd vpColVector) option" where
  "getDisplacement_twice s0 = do {
     (r1, dis1, timestamp1, s1) \<leftarrow>
        getDisplacement REFERENCE_FRAME [] \<lparr>tv_sec = 0, tv_nsec = 0\<rparr> s0;
     (r2, dis2, timestamp2, s2) \<leftarrow>
        getDisplacement REFERENCE_FRAME [] \<lparr>tv_sec = 0, tv_nsec = 0\<rparr> s1;
     Some (dis1, dis2)
   }"

subsection \<open>Two arithmetics for the examples\<close>

text \<open>
  The examples need values. \<open>exact\<close> is the conversion into the reals, where every
  operation is exact. The examples below that state an accumulator have stamps of whole
  seconds and velocities 0 and 1: the differences, products and sums they need are small
  whole numbers, which binary64 holds without rounding.
\<close>

definition exact :: "32 word \<Rightarrow> real" where
  "exact w = real (unat w)"

text \<open>The time of a sample in seconds, as a real number.\<close>

definition time_of :: "'d Odometry \<Rightarrow> real" where
  "time_of msg = real (unat (stamp_sec msg)) + real (unat (stamp_nsec msg)) / 1000000000"

text \<open>
  \<open>ext\<close> adds the two infinities and NaN to the reals, with the rules of IEEE 754 for
  them; its finite values are exact, and its zero has no sign (the divisions by zero are
  those of a positive zero).
\<close>

datatype ext = Fin real | PInf | MInf | NaN

instantiation ext :: "{zero, one, plus, minus, times, inverse}"
begin

definition zero_ext :: ext where
  "zero_ext = Fin 0"

definition one_ext :: ext where
  "one_ext = Fin 1"

fun plus_ext :: "ext \<Rightarrow> ext \<Rightarrow> ext" where
  "plus_ext NaN y = NaN"
| "plus_ext x NaN = NaN"
| "plus_ext PInf MInf = NaN"
| "plus_ext MInf PInf = NaN"
| "plus_ext PInf y = PInf"
| "plus_ext x PInf = PInf"
| "plus_ext MInf y = MInf"
| "plus_ext x MInf = MInf"
| "plus_ext (Fin a) (Fin b) = Fin (a + b)"

fun minus_ext :: "ext \<Rightarrow> ext \<Rightarrow> ext" where
  "minus_ext NaN y = NaN"
| "minus_ext x NaN = NaN"
| "minus_ext PInf PInf = NaN"
| "minus_ext MInf MInf = NaN"
| "minus_ext PInf y = PInf"
| "minus_ext x PInf = MInf"
| "minus_ext MInf y = MInf"
| "minus_ext x MInf = PInf"
| "minus_ext (Fin a) (Fin b) = Fin (a - b)"

fun times_ext :: "ext \<Rightarrow> ext \<Rightarrow> ext" where
  "times_ext NaN y = NaN"
| "times_ext x NaN = NaN"
| "times_ext (Fin a) (Fin b) = Fin (a * b)"
| "times_ext (Fin a) PInf = (if a = 0 then NaN else if 0 < a then PInf else MInf)"
| "times_ext (Fin a) MInf = (if a = 0 then NaN else if 0 < a then MInf else PInf)"
| "times_ext PInf (Fin b) = (if b = 0 then NaN else if 0 < b then PInf else MInf)"
| "times_ext MInf (Fin b) = (if b = 0 then NaN else if 0 < b then MInf else PInf)"
| "times_ext PInf PInf = PInf"
| "times_ext PInf MInf = MInf"
| "times_ext MInf PInf = MInf"
| "times_ext MInf MInf = PInf"

fun divide_ext :: "ext \<Rightarrow> ext \<Rightarrow> ext" where
  "divide_ext NaN y = NaN"
| "divide_ext x NaN = NaN"
| "divide_ext (Fin a) (Fin b) =
     (if b = 0 then (if a = 0 then NaN else if 0 < a then PInf else MInf) else Fin (a / b))"
| "divide_ext (Fin a) PInf = Fin 0"
| "divide_ext (Fin a) MInf = Fin 0"
| "divide_ext PInf (Fin b) = (if 0 \<le> b then PInf else MInf)"
| "divide_ext MInf (Fin b) = (if 0 \<le> b then MInf else PInf)"
| "divide_ext PInf PInf = NaN"
| "divide_ext PInf MInf = NaN"
| "divide_ext MInf PInf = NaN"
| "divide_ext MInf MInf = NaN"

definition inverse_ext :: "ext \<Rightarrow> ext" where
  "inverse_ext x =
     (case x of NaN \<Rightarrow> NaN | PInf \<Rightarrow> Fin 0 | MInf \<Rightarrow> Fin 0
      | Fin b \<Rightarrow> (if b = 0 then PInf else Fin (1 / b)))"

instance ..

end

definition ext_of :: "32 word \<Rightarrow> ext" where
  "ext_of w = Fin (real (unat w))"

subsection \<open>The state record of the specification\<close>

text \<open>
  Position, orientation, last sample time, displacement accumulator and displacement
  baseline, and the accesses that a call has added to the log.
\<close>

definition state_record ::
  "'d robot \<Rightarrow> 'd vpTranslationVector \<times> 'd vpQuaternionVector \<times> (32 word \<times> 32 word)
     \<times> 'd vpColVector \<times> 'd vpColVector" where
  "state_record s = (p s, q s, (sec s, nsec s), displacement s, pose_prev s)"

definition new_accesses :: "'d robot \<Rightarrow> 'd robot \<Rightarrow> (access \<times> bool) list" where
  "new_accesses s s' = drop (length (accesses s)) (accesses s')"

fun field_of :: "access \<Rightarrow> field" where
  "field_of (Rd f) = f"
| "field_of (Wr f) = f"


section \<open>What each function computes\<close>

subsection \<open>The busy wait returns exactly when the flag is up\<close>

lemma spin_Some_free:
  assumes "spin s = Some y"
  shows "odom_mutex s"
proof (rule spin.raw_induct[where P = "\<lambda>s y. odom_mutex s" and s = s and y = y])
  fix f :: "'a robot \<Rightarrow> 'a robot option" and s' y' :: "'a robot"
  assume IH: "\<And>x y. f x = Some y \<Longrightarrow> odom_mutex x"
    and step: "(if \<not> odom_mutex s' then f s' else Some s') = Some y'"
  show "odom_mutex s'"
  proof (cases "odom_mutex s'")
    case False
    with step have "f s' = Some y'" by simp
    then show ?thesis by (rule IH)
  qed simp
next
  show "spin s = Some y" by (rule assms)
qed

lemma spin_eq: "spin s = (if odom_mutex s then Some s else None)"
proof (cases "odom_mutex s")
  case True
  then show ?thesis by (subst spin.simps) simp
next
  case False
  then have "spin s = None" using spin_Some_free by (cases "spin s") auto
  with False show ?thesis by simp
qed

subsection \<open>The guarded functions, with the guard held and with the guard free\<close>

lemma odomCallback_held: "\<not> odom_mutex s \<Longrightarrow> odomCallback dbl msg s = None"
  by (simp add: odomCallback_def spin_eq)

lemma odomCallback_free:
  "odom_mutex s \<Longrightarrow> odomCallback dbl msg s =
     Some (s\<lparr> p := position msg, q := orientation msg,
              displacement :=
                (if sec s \<noteq> 0 \<or> nsec s \<noteq> 0
                 then accumulate (twist msg) (dt_of dbl msg s) (displacement s)
                 else displacement s),
              sec := stamp_sec msg, nsec := stamp_nsec msg,
              accesses := accesses s @
                [(Wr Position, True), (Wr Orientation, True), (Rd LastSampleTime, True)] @
                (if sec s \<noteq> 0 \<or> nsec s \<noteq> 0
                 then [(Rd LastSampleTime, True), (Rd DisplacementAccumulator, True),
                       (Wr DisplacementAccumulator, True)]
                 else []) @
                [(Wr LastSampleTime, True)] \<rparr>)"
  by (simp add: odomCallback_def spin_eq Let_def touch_def held_def dt_of_def)

lemma getPosition_held: "\<not> odom_mutex s \<Longrightarrow> getPosition rxyz frame pose s = None"
  by (simp add: getPosition_def spin_eq)

lemma getPosition_unsupported:
  "odom_mutex s \<Longrightarrow> frame \<noteq> REFERENCE_FRAME \<Longrightarrow>
   getPosition rxyz frame pose s = Some (Inl wrongStateError, pose, s\<lparr>odom_mutex := False\<rparr>)"
  by (simp add: getPosition_def spin_eq)

lemma getPosition_reference:
  "odom_mutex s \<Longrightarrow>
   getPosition rxyz REFERENCE_FRAME pose s =
     Some (Inr (),
           (case p s of (p0, p1, p2) \<Rightarrow> case rxyz (q s) of (V0, V1, V2) \<Rightarrow> [p0, p1, p2, V0, V1, V2]),
           s\<lparr>accesses := accesses s @ [(Rd Position, True), (Rd Orientation, True)]\<rparr>)"
  by (simp add: getPosition_def spin_eq Let_def touch_def held_def split: prod.splits)

lemma getDisplacement_held: "\<not> odom_mutex s \<Longrightarrow> getDisplacement frame dis ts s = None"
  by (simp add: getDisplacement_def spin_eq)

lemma getDisplacement_unsupported:
  "odom_mutex s \<Longrightarrow> frame \<noteq> REFERENCE_FRAME \<Longrightarrow>
   getDisplacement frame dis ts s =
     Some (Inl wrongStateError, dis, ts\<lparr>tv_sec := uint (sec s), tv_nsec := uint (nsec s)\<rparr>,
           s\<lparr>accesses := accesses s @
               [(Rd DisplacementAccumulator, True), (Rd LastSampleTime, True)]\<rparr>)"
  by (simp add: getDisplacement_def spin_eq Let_def touch_def held_def)

lemma getDisplacement_reference:
  "odom_mutex s \<Longrightarrow>
   getDisplacement REFERENCE_FRAME dis ts s =
     Some (Inr (), vpColVector_minus (displacement s) (pose_prev s),
           ts\<lparr>tv_sec := uint (sec s), tv_nsec := uint (nsec s)\<rparr>,
           s\<lparr>pose_prev := displacement s,
              accesses := accesses s @
               [(Rd DisplacementAccumulator, True), (Rd LastSampleTime, True),
                (Rd DisplacementBaseline, False), (Wr DisplacementBaseline, False)]\<rparr>)"
  by (simp add: getDisplacement_def spin_eq Let_def touch_def held_def)

subsection \<open>The accumulation on a vector of six rows\<close>

lemma accumulate_six:
  assumes "length d = 6"
  shows "accumulate (twist msg) dt d = map2 (+) d (map (\<lambda>v. v * dt) (velocity msg))"
proof -
  from assms obtain d0 d1 d2 d3 d4 d5 where "d = [d0, d1, d2, d3, d4, d5]"
    by (auto simp: length_Suc_conv eval_nat_numeral)
  then show ?thesis
    by (simp add: accumulate_def velocity_def add_at_def split: prod.splits)
qed

lemma length_velocity: "length (velocity msg) = 6"
  by (simp add: velocity_def split: prod.splits)

lemma accumulate_nth:
  assumes "length d = 6" and "i < 6"
  shows "accumulate (twist msg) dt d ! i = d ! i + velocity msg ! i * dt"
  using assms by (simp add: accumulate_six length_velocity)

lemma length_accumulate: "length (accumulate tw dt d) = length d"
  by (simp add: accumulate_def add_at_def split: prod.splits)

subsection \<open>The subtraction of two vectors, row by row\<close>

lemma length_vpColVector_minus:
  "length (vpColVector_minus a b) = min (length a) (length b)"
  by (simp add: vpColVector_minus_def)

lemma vpColVector_minus_nth:
  "i < length a \<Longrightarrow> i < length b \<Longrightarrow> vpColVector_minus a b ! i = a ! i - b ! i"
  by (simp add: vpColVector_minus_def)

subsection \<open>What a sequence of samples keeps and what it overwrites\<close>

lemma deliver_invariants:
  assumes "odom_mutex s"
  shows "\<exists>s'. deliver dbl msgs s = Some s' \<and> odom_mutex s' \<and> pose_prev s' = pose_prev s \<and>
              length (displacement s') = length (displacement s)"
  using assms
proof (induction msgs arbitrary: s)
  case Nil
  then show ?case by simp
next
  case (Cons msg msgs)
  obtain s1 where s1: "odomCallback dbl msg s = Some s1" "odom_mutex s1"
    "pose_prev s1 = pose_prev s" "length (displacement s1) = length (displacement s)"
    using Cons.prems by (simp add: odomCallback_free length_accumulate)
  from Cons.IH [OF s1(2)] s1 show ?case by auto
qed

lemma deliver_last:
  assumes "odom_mutex s" and "msgs \<noteq> []"
  shows "\<exists>s'. deliver dbl msgs s = Some s' \<and> odom_mutex s' \<and>
              p s' = position (last msgs) \<and> q s' = orientation (last msgs)"
  using assms
proof (induction msgs arbitrary: s)
  case Nil
  then show ?case by simp
next
  case (Cons msg msgs)
  obtain s1 where s1: "odomCallback dbl msg s = Some s1" "odom_mutex s1"
    "p s1 = position msg" "q s1 = orientation msg"
    using Cons.prems(1) by (simp add: odomCallback_free)
  show ?case
  proof (cases "msgs = []")
    case True
    with s1 show ?thesis by simp
  next
    case False
    from Cons.IH [OF s1(2) False] s1(1) False show ?thesis by auto
  qed
qed

subsection \<open>Stamps\<close>

lemma dt_of_dt_between:
  assumes "sec s = stamp_sec m0" and "nsec s = stamp_nsec m0"
  shows "dt_of dbl msg s = dt_between dbl m0 msg"
  using assms by (simp add: dt_of_def dt_between_def)

lemma stamp_ns_pos: "0 < stamp_ns m \<longleftrightarrow> stamp_sec m \<noteq> 0 \<or> stamp_nsec m \<noteq> 0"
  by (auto simp: stamp_ns_def unat_gt_0)

lemma increasing_stamps_nonzero:
  assumes "sorted_wrt (\<lambda>a b. stamp_ns a < stamp_ns b) (m # msgs)"
    and "stamp_sec m \<noteq> 0 \<or> stamp_nsec m \<noteq> 0"
  shows "\<forall>m' \<in> set (m # msgs). stamp_sec m' \<noteq> 0 \<or> stamp_nsec m' \<noteq> 0"
proof
  fix m' assume "m' \<in> set (m # msgs)"
  then have "stamp_ns m \<le> stamp_ns m'"
    using assms(1) by auto
  moreover have "0 < stamp_ns m" using assms(2) by (simp add: stamp_ns_pos)
  ultimately have "0 < stamp_ns m'" by simp
  then show "stamp_sec m' \<noteq> 0 \<or> stamp_nsec m' \<noteq> 0" by (simp add: stamp_ns_pos)
qed

subsection \<open>The sum of the specification, sample by sample\<close>

lemma sum_from_single: "sum_from a dbl [m] i = a"
  by (simp add: sum_from_def)

lemma sum_from_Cons:
  "sum_from a dbl (m0 # m1 # rest) i =
     sum_from (a + velocity m1 ! i * dt_between dbl m0 m1) dbl (m1 # rest) i"
proof -
  let ?F = "\<lambda>l acc k. acc + velocity (l ! k) ! i * dt_between dbl (l ! (k - 1)) (l ! k)"
  have idx: "[1..<length (m0 # m1 # rest)] = 1 # map Suc [1..<length (m1 # rest)]"
    by (simp add: upt_conv_Cons map_Suc_upt del: upt_Suc)
  have "sum_from a dbl (m0 # m1 # rest) i =
          foldl (\<lambda>acc k. ?F (m0 # m1 # rest) acc (Suc k)) (?F (m0 # m1 # rest) a 1)
            [1..<length (m1 # rest)]"
    unfolding sum_from_def idx by (simp add: foldl_map del: upt_Suc)
  also have "\<dots> = foldl (?F (m1 # rest)) (a + velocity m1 ! i * dt_between dbl m0 m1)
                     [1..<length (m1 # rest)]"
    by (rule foldl_cong) (auto simp: nth_Cons')
  finally show ?thesis by (simp add: sum_from_def)
qed

lemma deliver_sum_from:
  assumes "odom_mutex s" and "length (displacement s) = 6"
    and "sec s = stamp_sec m0" and "nsec s = stamp_nsec m0"
    and "\<forall>m \<in> set (m0 # msgs). stamp_sec m \<noteq> 0 \<or> stamp_nsec m \<noteq> 0"
    and "i < 6"
  shows "\<exists>s'. deliver dbl msgs s = Some s' \<and> length (displacement s') = 6 \<and>
              displacement s' ! i = sum_from (displacement s ! i) dbl (m0 # msgs) i"
  using assms
proof (induction msgs arbitrary: s m0)
  case Nil
  then show ?case by (simp add: sum_from_single)
next
  case (Cons m1 msgs)
  from Cons.prems have nz: "sec s \<noteq> 0 \<or> nsec s \<noteq> 0" by simp
  have dt: "dt_of dbl m1 s = dt_between dbl m0 m1"
    using Cons.prems(3,4) by (rule dt_of_dt_between)
  obtain s1 where s1: "odomCallback dbl m1 s = Some s1" "odom_mutex s1"
    "sec s1 = stamp_sec m1" "nsec s1 = stamp_nsec m1"
    "displacement s1 = accumulate (twist m1) (dt_of dbl m1 s) (displacement s)"
    using Cons.prems(1) nz by (simp add: odomCallback_free)
  have len1: "length (displacement s1) = 6"
    using s1(5) Cons.prems(2) by (simp add: length_accumulate)
  have d1: "displacement s1 ! i = displacement s ! i + velocity m1 ! i * dt_between dbl m0 m1"
    using s1(5) Cons.prems(2,6) dt by (simp add: accumulate_nth)
  have nz1: "\<forall>m \<in> set (m1 # msgs). stamp_sec m \<noteq> 0 \<or> stamp_nsec m \<noteq> 0"
    using Cons.prems(5) by simp
  from Cons.IH [OF s1(2) len1 s1(3) s1(4) nz1 Cons.prems(6)]
  obtain s' where s': "deliver dbl msgs s1 = Some s'" "length (displacement s') = 6"
    "displacement s' ! i = sum_from (displacement s1 ! i) dbl (m1 # msgs) i"
    by blast
  show ?case
    using s1(1) s' d1 by (simp add: sum_from_Cons)
qed

subsection \<open>In exact arithmetic the sum is the sum of the specification\<close>

lemma foldl_plus_sum:
  fixes g :: "nat \<Rightarrow> real"
  shows "foldl (\<lambda>acc k. acc + g k) a [m..<n] = a + sum g {m..<n}"
proof (induction n)
  case 0
  then show ?case by simp
next
  case (Suc n)
  then show ?case by (cases "m \<le> n") simp_all
qed

lemma exact_billion: "exact 1000000000 = 1000000000"
  by (simp add: exact_def)

lemma dt_between_exact: "dt_between exact m0 m1 = time_of m1 - time_of m0"
proof -
  have "dt_between exact m0 m1 =
          (exact (stamp_sec m1) - exact (stamp_sec m0))
            + (exact (stamp_nsec m1) - exact (stamp_nsec m0)) / 1000000000"
    by (simp only: dt_between_def exact_billion)
  also have "\<dots> = time_of m1 - time_of m0"
    by (simp add: exact_def time_of_def field_simps)
  finally show ?thesis .
qed

lemma weighted_sum_exact:
  "weighted_sum exact msgs i =
     (\<Sum>k = 1..<length msgs.
        velocity (msgs ! k) ! i * (time_of (msgs ! k) - time_of (msgs ! (k - 1))))"
  by (simp add: weighted_sum_def sum_from_def foldl_plus_sum dt_between_exact)

subsection \<open>Evaluation on explicit samples\<close>

lemma replicate_six: "replicate 6 x = [x, x, x, x, x, x]"
  by (simp add: eval_nat_numeral)

lemma accumulate_explicit:
  "accumulate \<lparr>linear = (lx, ly, lz), angular = (ax, ay, az)\<rparr> dt [d0, d1, d2, d3, d4, d5] =
     [d0 + lx * dt, d1 + ly * dt, d2 + lz * dt, d3 + ax * dt, d4 + ay * dt, d5 + az * dt]"
  by (simp add: accumulate_def add_at_def)

lemmas run_simps = odomCallback_free vpROSRobot_def sample_at_def accumulate_explicit
  replicate_six dt_of_def dt_between_def stamp_ns_def velocity_def exact_def time_of_def


section \<open>Unsupported frames\<close>

text \<open>
  C5. For every frame other than \<open>REFERENCE_FRAME\<close>, each of \<open>setVelocity\<close>, \<open>getPosition\<close>
  and \<open>getDisplacement\<close> fails with \<open>wrongStateError\<close> (the specification's
  UnsupportedFrame) and leaves position, orientation, last sample time, displacement
  accumulator and displacement baseline as they were. The guarded two are called with the
  guard free, so that they get past the busy wait.
\<close>

theorem unsupported_frame_fails_and_keeps_state_record:
  assumes "frame \<noteq> REFERENCE_FRAME" and "odom_mutex s"
  shows "setVelocity frame vel s = (Inl wrongStateError, s) \<and>
         (\<exists>s'. getPosition rxyz frame pose s = Some (Inl wrongStateError, pose, s') \<and>
               state_record s' = state_record s) \<and>
         (\<exists>timestamp' s'. getDisplacement frame dis timestamp s =
                 Some (Inl wrongStateError, dis, timestamp', s') \<and>
               state_record s' = state_record s)"
  using assms
  by (simp add: setVelocity_def getPosition_unsupported getDisplacement_unsupported
      state_record_def)

theorem unsupported_frame_fails_and_keeps_state_record_witness:
  "CAMERA_FRAME \<noteq> REFERENCE_FRAME \<and> odom_mutex (vpROSRobot :: real robot) \<and>
   setVelocity CAMERA_FRAME [1, 0, 0, 0, 0, 0] (vpROSRobot :: real robot)
     = (Inl wrongStateError, vpROSRobot) \<and>
   (\<exists>s'. getPosition (\<lambda>(x, y, z, w). (x, y, z)) CAMERA_FRAME [] (vpROSRobot :: real robot) =
           Some (Inl wrongStateError, [], s') \<and>
         state_record s' = state_record vpROSRobot) \<and>
   (\<exists>timestamp' s'. getDisplacement CAMERA_FRAME [] \<lparr>tv_sec = 7, tv_nsec = 7\<rparr>
                       (vpROSRobot :: real robot) =
           Some (Inl wrongStateError, [], timestamp', s') \<and>
         state_record s' = state_record vpROSRobot)"
  using unsupported_frame_fails_and_keeps_state_record
          [of CAMERA_FRAME "vpROSRobot :: real robot" "[1, 0, 0, 0, 0, 0]"
              "\<lambda>(x, y, z, w). (x, y, z)" "[]" "[]" "\<lparr>tv_sec = 7, tv_nsec = 7\<rparr>"]
  by (simp add: vpROSRobot_def)

text \<open>
  C10. The overload of \<open>getDisplacement\<close> with a timestamp assigns the caller's
  \<open>timestamp\<close> from the stored sample time before it looks at the frame: a call with an
  unsupported frame fails with \<open>wrongStateError\<close>, and the timestamp that comes back is
  the stored one, whatever the caller had passed.
\<close>

theorem getDisplacement_timestamp_before_frame_check:
  assumes "frame \<noteq> REFERENCE_FRAME" and "odom_mutex s"
  shows "\<exists>s'. getDisplacement frame dis timestamp s =
           Some (Inl wrongStateError, dis,
                 \<lparr>tv_sec = uint (sec s), tv_nsec = uint (nsec s)\<rparr>, s')"
  using assms by (simp add: getDisplacement_unsupported)

theorem getDisplacement_timestamp_before_frame_check_witness:
  "CAMERA_FRAME \<noteq> REFERENCE_FRAME \<and>
   odom_mutex ((vpROSRobot :: real robot)\<lparr>sec := 12, nsec := 500\<rparr>) \<and>
   (\<exists>s'. getDisplacement CAMERA_FRAME [] \<lparr>tv_sec = 7, tv_nsec = 7\<rparr>
              ((vpROSRobot :: real robot)\<lparr>sec := 12, nsec := 500\<rparr>) =
           Some (Inl wrongStateError, [], \<lparr>tv_sec = 12, tv_nsec = 500\<rparr>, s'))"
  using getDisplacement_timestamp_before_frame_check
          [of CAMERA_FRAME "(vpROSRobot :: real robot)\<lparr>sec := 12, nsec := 500\<rparr>" "[]"
              "\<lparr>tv_sec = 7, tv_nsec = 7\<rparr>"]
  by (simp add: vpROSRobot_def)

section \<open>Initialisation against another master\<close>

text \<open>
  C7. When the transport is already initialised and its master URI differs from the
  configured one, \<open>init\<close> fails with \<open>constructionError\<close> (the specification's
  ConfigurationConflict) and changes neither the object nor the transport: \<open>isInitialized\<close>
  keeps its value, which is false on an object that was not initialised, and no publisher
  or subscription is made.
\<close>

theorem init_conflict:
  assumes "ros_isInitialized r" and "ros_master_getURI r \<noteq> master_uri s"
  shows "init s r = Defined (Inl constructionError, s, r)"
  using assms by (simp add: init_def)

theorem init_conflict_witness:
  "ros_isInitialized \<lparr>ros_isInitialized = True, ros_master_getURI = ''http://10.0.0.1:11311''\<rparr> \<and>
   ros_master_getURI \<lparr>ros_isInitialized = True, ros_master_getURI = ''http://10.0.0.1:11311''\<rparr>
     \<noteq> master_uri (vpROSRobot :: real robot) \<and>
   init (vpROSRobot :: real robot)
        \<lparr>ros_isInitialized = True, ros_master_getURI = ''http://10.0.0.1:11311''\<rparr> =
     Defined (Inl constructionError, vpROSRobot,
              \<lparr>ros_isInitialized = True, ros_master_getURI = ''http://10.0.0.1:11311''\<rparr>) \<and>
   \<not> isInitialized (vpROSRobot :: real robot) \<and> cmdvel (vpROSRobot :: real robot) = None \<and>
   odom (vpROSRobot :: real robot) = None"
  using init_conflict
          [of "\<lparr>ros_isInitialized = True, ros_master_getURI = ''http://10.0.0.1:11311''\<rparr>"
              "vpROSRobot :: real robot"]
  by (simp add: vpROSRobot_def)

section \<open>The integrator\<close>

text \<open>
  C1, as the source has it. For every sequence of samples with strictly increasing
  stamps whose first stamp is not \<open>(0, 0)\<close>, delivered to a newly constructed object,
  every component \<open>i\<close> of the accumulator after the last sample is the sum of the
  specification taken in the arithmetic of \<^verbatim>\<open>double\<close>, \<open>weighted_sum\<close>: from zero, for
  each sample from the second on and in the order of arrival, the accumulator so far plus
  the product of the sample's velocity \<open>i\<close> and the time \<open>dt_between\<close> since the sample
  before it; the first sample adds nothing. Lemma \<open>weighted_sum_exact\<close> says that in
  exact arithmetic this is the sum of the velocities times the differences of the times.
\<close>

theorem accumulator_is_weighted_sum:
  fixes dbl :: "32 word \<Rightarrow> 'd::{zero,one,plus,minus,times,inverse}"
  assumes "sorted_wrt (\<lambda>a b. stamp_ns a < stamp_ns b) (m # msgs)"
    and "stamp_sec m \<noteq> 0 \<or> stamp_nsec m \<noteq> 0"
    and "i < 6"
  shows "\<exists>s'. deliver dbl (m # msgs) vpROSRobot = Some s' \<and>
              displacement s' ! i = weighted_sum dbl (m # msgs) i"
proof -
  obtain s1 where s1: "odomCallback dbl m vpROSRobot = Some s1" "odom_mutex s1"
    "sec s1 = stamp_sec m" "nsec s1 = stamp_nsec m" "displacement s1 = replicate 6 0"
    by (simp add: odomCallback_free vpROSRobot_def)
  have len1: "length (displacement s1) = 6" using s1(5) by simp
  from deliver_sum_from
         [OF s1(2) len1 s1(3) s1(4) increasing_stamps_nonzero [OF assms(1,2)] assms(3)]
  obtain s' where "deliver dbl msgs s1 = Some s'"
    "displacement s' ! i = sum_from (displacement s1 ! i) dbl (m # msgs) i"
    by blast
  then show ?thesis using s1(1,5) assms(3) by (simp add: weighted_sum_def)
qed

text \<open>
  In exact arithmetic, the samples at 1 s (no velocity), 2 s (1 along x) and 3 s (1 about
  z): the accumulator is \<open>[1, 0, 0, 0, 0, 0]\<close> after the second and
  \<open>[1, 0, 0, 0, 0, 1]\<close> after the third.
\<close>

theorem accumulator_is_weighted_sum_witness:
  "sorted_wrt (\<lambda>a b. stamp_ns a < stamp_ns b)
     [sample_at 1 (0, 0, 0) (0, 0, 0), sample_at 2 (1, 0, 0) (0, 0, 0),
      sample_at 3 (0, 0, 0) (0, 0, 1 :: real)] \<and>
   stamp_sec (sample_at 1 (0, 0, 0) (0, 0, 0 :: real)) = 1 \<and>
   (\<exists>s'. deliver exact [sample_at 1 (0, 0, 0) (0, 0, 0), sample_at 2 (1, 0, 0) (0, 0, 0),
                        sample_at 3 (0, 0, 0) (0, 0, 1)] vpROSRobot = Some s' \<and>
         displacement s' ! 5 =
           weighted_sum exact [sample_at 1 (0, 0, 0) (0, 0, 0), sample_at 2 (1, 0, 0) (0, 0, 0),
                               sample_at 3 (0, 0, 0) (0, 0, 1)] 5) \<and>
   weighted_sum exact [sample_at 1 (0, 0, 0) (0, 0, 0), sample_at 2 (1, 0, 0) (0, 0, 0),
                       sample_at 3 (0, 0, 0) (0, 0, 1)] 5 = 1 \<and>
   map_option displacement
     (deliver exact [sample_at 1 (0, 0, 0) (0, 0, 0), sample_at 2 (1, 0, 0) (0, 0, 0)] vpROSRobot)
     = Some [1, 0, 0, 0, 0, 0] \<and>
   map_option displacement
     (deliver exact [sample_at 1 (0, 0, 0) (0, 0, 0), sample_at 2 (1, 0, 0) (0, 0, 0),
                     sample_at 3 (0, 0, 0) (0, 0, 1)] vpROSRobot)
     = Some [1, 0, 0, 0, 0, 1]"
proof -
  let ?e1 = "sample_at 1 (0, 0, 0) (0, 0, 0 :: real)"
  let ?e2 = "sample_at 2 (1, 0, 0) (0, 0, 0 :: real)"
  let ?e3 = "sample_at 3 (0, 0, 0) (0, 0, 1 :: real)"
  have inc: "sorted_wrt (\<lambda>a b. stamp_ns a < stamp_ns b) [?e1, ?e2, ?e3]"
    by (simp add: stamp_ns_def sample_at_def)
  have nz: "stamp_sec ?e1 \<noteq> 0 \<or> stamp_nsec ?e1 \<noteq> 0"
    by (simp add: sample_at_def)
  have ws: "weighted_sum exact [?e1, ?e2, ?e3] 5 = 1"
    by (simp add: weighted_sum_def sum_from_Cons sum_from_single run_simps)
  have two: "map_option displacement (deliver exact [?e1, ?e2] vpROSRobot)
               = Some [1, 0, 0, 0, 0, 0]"
    by (simp add: run_simps)
  have three: "map_option displacement (deliver exact [?e1, ?e2, ?e3] vpROSRobot)
                 = Some [1, 0, 0, 0, 0, 1]"
    by (simp add: run_simps)
  from accumulator_is_weighted_sum [OF inc nz, of 5 exact] inc ws two three
  show ?thesis by (simp add: sample_at_def)
qed

text \<open>
  C1, as the specification states it, fails where the first sample is stamped \<open>(0, 0)\<close>:
  with the samples at 0 s, 1 s and 2 s of its example, the stamps increase strictly, the
  sum for component 0 after two samples is 1, and the accumulator is all zero after the
  second sample and \<open>[0, 0, 0, 0, 0, 1]\<close> after the third. The second sample is not
  integrated at all; the one product and the one sum of the third are exact.
\<close>

theorem accumulator_example_counterexample:
  "sorted_wrt (\<lambda>a b. stamp_ns a < stamp_ns b)
     [sample_at 0 (0, 0, 0) (0, 0, 0), sample_at 1 (1, 0, 0) (0, 0, 0),
      sample_at 2 (0, 0, 0) (0, 0, 1 :: real)] \<and>
   map_option displacement
     (deliver exact [sample_at 0 (0, 0, 0) (0, 0, 0), sample_at 1 (1, 0, 0) (0, 0, 0)] vpROSRobot)
     = Some [0, 0, 0, 0, 0, 0] \<and>
   map_option displacement
     (deliver exact [sample_at 0 (0, 0, 0) (0, 0, 0), sample_at 1 (1, 0, 0) (0, 0, 0),
                     sample_at 2 (0, 0, 0) (0, 0, 1)] vpROSRobot)
     = Some [0, 0, 0, 0, 0, 1] \<and>
   weighted_sum exact [sample_at 0 (0, 0, 0) (0, 0, 0), sample_at 1 (1, 0, 0) (0, 0, 0)] 0 = 1"
  by (simp add: run_simps weighted_sum_def sum_from_Cons sum_from_single)

text \<open>
  C9. The test for the first sample is the stored stamp \<open>(0, 0)\<close>, with no flag beside
  it. A sample stamped \<open>(0, 0)\<close> leaves the stored stamp as the constructor made it, and
  the sample that follows it adds nothing to the accumulator.
\<close>

theorem zero_stamp_is_no_sample_yet:
  fixes s :: "'d::{zero,one,plus,minus,times,inverse} robot"
  assumes "odom_mutex s" and "stamp_sec msg = 0" and "stamp_nsec msg = 0"
  shows "\<exists>s' s''. odomCallback dbl msg s = Some s' \<and>
           (sec s', nsec s') = (sec (vpROSRobot :: 'd robot), nsec (vpROSRobot :: 'd robot)) \<and>
           odomCallback dbl msg' s' = Some s'' \<and>
           displacement s'' = displacement s'"
  using assms by (simp add: odomCallback_free vpROSRobot_def)

theorem zero_stamp_is_no_sample_yet_witness:
  "odom_mutex (vpROSRobot :: real robot) \<and>
   stamp_sec (sample_at 0 (1, 0, 0) (0, 0, 0 :: real)) = 0 \<and>
   stamp_nsec (sample_at 0 (1, 0, 0) (0, 0, 0 :: real)) = 0 \<and>
   (\<exists>s' s''. odomCallback exact (sample_at 0 (1, 0, 0) (0, 0, 0)) vpROSRobot = Some s' \<and>
      (sec s', nsec s') = (sec (vpROSRobot :: real robot), nsec (vpROSRobot :: real robot)) \<and>
      odomCallback exact (sample_at 1 (1, 0, 0) (0, 0, 0)) s' = Some s'' \<and>
      displacement s'' = displacement s')"
  using zero_stamp_is_no_sample_yet
          [of "vpROSRobot :: real robot" "sample_at 0 (1, 0, 0) (0, 0, 0)" exact
              "sample_at 1 (1, 0, 0) (0, 0, 0)"]
  by (simp add: vpROSRobot_def sample_at_def)

text \<open>
  C8, as the source has it. The callback does not look at the order of the stamps. For
  every two samples that arrive one after the other, the first of them with a stamp other
  than \<open>(0, 0)\<close>, the second adds to every component of the accumulator the product of
  its velocity and \<open>dt_between\<close>, the time between the two as the source computes it in
  the arithmetic of \<^verbatim>\<open>double\<close>, whatever the order of the two stamps, and the callback
  returns: it has no error result.
\<close>

theorem odomCallback_integrates_any_dt:
  assumes "odom_mutex s" and "length (displacement s) = 6"
    and "stamp_sec m1 \<noteq> 0 \<or> stamp_nsec m1 \<noteq> 0"
    and "i < 6"
  shows "\<exists>s1 s2. odomCallback dbl m1 s = Some s1 \<and> odomCallback dbl m2 s1 = Some s2 \<and>
           displacement s2 ! i =
             displacement s1 ! i + velocity m2 ! i * dt_between dbl m1 m2"
proof -
  obtain s1 where s1: "odomCallback dbl m1 s = Some s1" "odom_mutex s1"
    "sec s1 = stamp_sec m1" "nsec s1 = stamp_nsec m1"
    "length (displacement s1) = 6"
    using assms(1,2) by (simp add: odomCallback_free length_accumulate)
  have dt: "dt_of dbl m2 s1 = dt_between dbl m1 m2"
    using s1(3,4) by (rule dt_of_dt_between)
  obtain s2 where s2: "odomCallback dbl m2 s1 = Some s2"
    "displacement s2 = accumulate (twist m2) (dt_of dbl m2 s1) (displacement s1)"
    using s1(2,3,4) assms(3) by (simp add: odomCallback_free)
  have "displacement s2 ! i = displacement s1 ! i + velocity m2 ! i * dt_between dbl m1 m2"
    using s2(2) s1(5) assms(4) dt by (simp add: accumulate_nth)
  with s1(1) s2(1) show ?thesis by blast
qed

text \<open>
  In exact arithmetic, a sample at 3 s after a sample at 5 s: the time between them is
  -2 s, and a velocity of 1 along x takes 2 off the first component.
\<close>

theorem odomCallback_integrates_any_dt_witness:
  "odom_mutex (vpROSRobot :: real robot) \<and> length (displacement (vpROSRobot :: real robot)) = 6 \<and>
   stamp_sec (sample_at 5 (0, 0, 0) (0, 0, 0 :: real)) = 5 \<and>
   dt_between exact (sample_at 5 (0, 0, 0) (0, 0, 0)) (sample_at 3 (1, 0, 0) (0, 0, 0)) = - 2 \<and>
   (\<exists>s1 s2. odomCallback exact (sample_at 5 (0, 0, 0) (0, 0, 0)) vpROSRobot = Some s1 \<and>
      odomCallback exact (sample_at 3 (1, 0, 0) (0, 0, 0)) s1 = Some s2 \<and>
      displacement s2 ! 0 = displacement s1 ! 0 + 1 * (- 2)) \<and>
   map_option displacement
     (deliver exact [sample_at 5 (0, 0, 0) (0, 0, 0), sample_at 3 (1, 0, 0) (0, 0, 0)] vpROSRobot)
     = Some [- 2, 0, 0, 0, 0, 0]"
proof -
  let ?a = "sample_at 5 (0, 0, 0) (0, 0, 0 :: real)"
  let ?b = "sample_at 3 (1, 0, 0) (0, 0, 0 :: real)"
  have nz: "stamp_sec ?a \<noteq> 0 \<or> stamp_nsec ?a \<noteq> 0"
    by (simp add: sample_at_def)
  have free: "odom_mutex (vpROSRobot :: real robot)"
    and len: "length (displacement (vpROSRobot :: real robot)) = 6"
    by (simp_all add: vpROSRobot_def)
  have dt: "dt_between exact ?a ?b = - 2"
    by (simp add: dt_between_def exact_def sample_at_def)
  have v: "velocity ?b ! 0 = 1"
    by (simp add: velocity_def sample_at_def)
  have run: "map_option displacement (deliver exact [?a, ?b] vpROSRobot)
               = Some [- 2, 0, 0, 0, 0, 0]"
    by (simp add: run_simps)
  from odomCallback_integrates_any_dt [OF free len nz, of 0 exact ?b]
  show ?thesis using free len dt v run by (simp add: sample_at_def)
qed

text \<open>
  C8, as the specification states it, fails for a pair whose first sample is stamped
  \<open>(0, 0)\<close>: after the samples at 5 s and 0 s, the sample at 3 s with velocity 1 along x
  should add 3 to the first component, and the accumulator stays at zero.
\<close>

theorem zero_stamp_pair_counterexample:
  "map_option displacement
     (deliver exact [sample_at 5 (0, 0, 0) (0, 0, 0), sample_at 0 (0, 0, 0) (0, 0, 0)] vpROSRobot)
     = Some [0, 0, 0, 0, 0, 0] \<and>
   velocity (sample_at 3 (1, 0, 0) (0, 0, 0 :: real)) ! 0
     * dt_between exact (sample_at 0 (0, 0, 0) (0, 0, 0)) (sample_at 3 (1, 0, 0) (0, 0, 0)) = 3 \<and>
   map_option displacement
     (deliver exact [sample_at 5 (0, 0, 0) (0, 0, 0), sample_at 0 (0, 0, 0) (0, 0, 0),
                     sample_at 3 (1, 0, 0) (0, 0, 0)] vpROSRobot)
     = Some [0, 0, 0, 0, 0, 0]"
  by (simp add: run_simps)

text \<open>
  C6. After one or more samples, \<open>getPosition\<close> in the reference frame returns six
  components: the position of the last sample, then the conversion \<open>rxyz\<close> of the
  orientation of the last sample.
\<close>

theorem getPosition_returns_last_sample:
  assumes "odom_mutex s" and "msgs \<noteq> []"
  shows "\<exists>s' pose' s''. deliver dbl msgs s = Some s' \<and>
           getPosition rxyz REFERENCE_FRAME pose s' = Some (Inr (), pose', s'') \<and>
           length pose' = 6 \<and>
           (pose' ! 0, pose' ! 1, pose' ! 2) = position (last msgs) \<and>
           (pose' ! 3, pose' ! 4, pose' ! 5) = rxyz (orientation (last msgs))"
proof -
  from deliver_last [OF assms] obtain s' where s': "deliver dbl msgs s = Some s'" "odom_mutex s'"
    "p s' = position (last msgs)" "q s' = orientation (last msgs)"
    by blast
  obtain p0 p1 p2 where pp: "position (last msgs) = (p0, p1, p2)" by (cases "position (last msgs)")
  obtain V0 V1 V2 where vv: "rxyz (orientation (last msgs)) = (V0, V1, V2)"
    by (cases "rxyz (orientation (last msgs))")
  have "getPosition rxyz REFERENCE_FRAME pose s' =
          Some (Inr (), [p0, p1, p2, V0, V1, V2],
                s'\<lparr>accesses := accesses s' @ [(Rd Position, True), (Rd Orientation, True)]\<rparr>)"
    using s'(2,3,4) pp vv by (simp add: getPosition_reference)
  with s'(1) pp vv show ?thesis by simp
qed

theorem getPosition_returns_last_sample_witness:
  "odom_mutex (vpROSRobot :: real robot) \<and>
   (\<exists>s' s''. deliver exact [sample_at 1 (1, 0, 0) (0, 0, 0),
                       \<lparr>stamp_sec = 2, stamp_nsec = 5, position = (7, 8, 9),
                        orientation = (1, 0, 0, 0),
                        twist = \<lparr>linear = (0, 0, 0), angular = (0, 0, 0)\<rparr>\<rparr>] vpROSRobot = Some s' \<and>
      getPosition (\<lambda>(x, y, z, w). (x, y, z)) REFERENCE_FRAME [] s' =
        Some (Inr (), [7, 8, 9, 1, 0, 0], s''))"
proof -
  let ?msgs = "[sample_at 1 (1, 0, 0) (0, 0, 0),
                       \<lparr>stamp_sec = 2, stamp_nsec = 5, position = (7, 8, 9 :: real),
                        orientation = (1, 0, 0, 0),
                        twist = \<lparr>linear = (0, 0, 0), angular = (0, 0, 0)\<rparr>\<rparr>]"
  have free: "odom_mutex (vpROSRobot :: real robot)" by (simp add: vpROSRobot_def)
  have ne: "?msgs \<noteq> []" by simp
  from getPosition_returns_last_sample [OF free ne, of exact "\<lambda>(x, y, z, w). (x, y, z)" "[]"]
  obtain s' pose' s'' where *: "deliver exact ?msgs vpROSRobot = Some s'"
     "getPosition (\<lambda>(x, y, z, w). (x, y, z)) REFERENCE_FRAME [] s' = Some (Inr (), pose', s'')"
     "length pose' = 6" "(pose' ! 0, pose' ! 1, pose' ! 2) = (7, 8, 9)"
     "(pose' ! 3, pose' ! 4, pose' ! 5) = (1, 0, 0)"
    by auto
  from *(3) obtain a b c d e f where "pose' = [a, b, c, d, e, f]"
    by (auto simp: length_Suc_conv eval_nat_numeral)
  with *(4,5) have "pose' = [7, 8, 9, 1, 0, 0]" by simp
  with * free show ?thesis by blast
qed

section \<open>The guard\<close>

text \<open>
  C2 asks for the guard to be free again after every exit, the failure included. In the
  source \<open>getPosition\<close> throws between \<^verbatim>\<open>odom_mutex = false\<close> and \<^verbatim>\<open>odom_mutex = true\<close>:
  after a call with an unsupported frame the flag stays down, and every later call of
  \<open>getPosition\<close>, \<open>getDisplacement\<close> or \<open>odomCallback\<close> waits without end.
\<close>

theorem getPosition_failure_keeps_guard:
  assumes "odom_mutex s" and "frame \<noteq> REFERENCE_FRAME"
  shows "\<exists>s'. getPosition rxyz frame pose s = Some (Inl wrongStateError, pose, s') \<and>
           \<not> odom_mutex s' \<and>
           getPosition rxyz frame' pose' s' = None \<and>
           getDisplacement frame' dis timestamp s' = None \<and>
           odomCallback dbl msg s' = None"
  using assms
  by (simp add: getPosition_unsupported getPosition_held getDisplacement_held odomCallback_held)

theorem getPosition_failure_keeps_guard_witness:
  "odom_mutex (vpROSRobot :: real robot) \<and>
   (\<exists>s'. getPosition (\<lambda>(x, y, z, w). (x, y, z)) CAMERA_FRAME [] (vpROSRobot :: real robot) =
            Some (Inl wrongStateError, [], s') \<and>
      \<not> odom_mutex s' \<and>
      getPosition (\<lambda>(x, y, z, w). (x, y, z)) REFERENCE_FRAME [] s' = None \<and>
      getDisplacement REFERENCE_FRAME [] \<lparr>tv_sec = 0, tv_nsec = 0\<rparr> s' = None \<and>
      odomCallback exact (sample_at 1 (0, 0, 0) (0, 0, 0)) s' = None)"
  using getPosition_failure_keeps_guard
          [of "vpROSRobot :: real robot" CAMERA_FRAME "\<lambda>(x, y, z, w). (x, y, z)" "[]"
              REFERENCE_FRAME "[]" "[]" "\<lparr>tv_sec = 0, tv_nsec = 0\<rparr>" exact
              "sample_at 1 (0, 0, 0) (0, 0, 0)"]
  by (simp add: vpROSRobot_def)

text \<open>
  C3, as the source has it. The callback and \<open>getPosition\<close> read and write the state
  record with the guard held only. \<open>getDisplacement\<close> reads the accumulator and the
  sample time with the guard held, and reads and writes the baseline \<open>pose_prev\<close> after
  it has given the guard back: an access of \<open>getDisplacement\<close> is under the guard exactly
  when it is not an access to the baseline.
\<close>

theorem accesses_under_guard_except_baseline:
  assumes "odom_mutex s"
  shows "(\<exists>s'. odomCallback dbl msg s = Some s' \<and> list_all snd (new_accesses s s')) \<and>
         (\<exists>r pose' s'. getPosition rxyz frame pose s = Some (r, pose', s') \<and>
              list_all snd (new_accesses s s')) \<and>
         (\<exists>r dis' timestamp' s'.
              getDisplacement frame dis timestamp s = Some (r, dis', timestamp', s') \<and>
              list_all (\<lambda>(a, h). h = (field_of a \<noteq> DisplacementBaseline)) (new_accesses s s'))"
proof (intro conjI)
  show "\<exists>s'. odomCallback dbl msg s = Some s' \<and> list_all snd (new_accesses s s')"
    using assms by (simp add: odomCallback_free new_accesses_def)
  show "\<exists>r pose' s'. getPosition rxyz frame pose s = Some (r, pose', s') \<and>
              list_all snd (new_accesses s s')"
    using assms
    by (cases "frame = REFERENCE_FRAME")
       (simp_all add: getPosition_reference getPosition_unsupported new_accesses_def)
  show "\<exists>r dis' timestamp' s'.
              getDisplacement frame dis timestamp s = Some (r, dis', timestamp', s') \<and>
              list_all (\<lambda>(a, h). h = (field_of a \<noteq> DisplacementBaseline)) (new_accesses s s')"
    using assms
    by (cases "frame = REFERENCE_FRAME")
       (simp_all add: getDisplacement_reference getDisplacement_unsupported new_accesses_def)
qed

theorem accesses_under_guard_except_baseline_witness:
  "odom_mutex (vpROSRobot :: real robot) \<and>
   (\<exists>s'. odomCallback exact (sample_at 1 (0, 0, 0) (0, 0, 0)) (vpROSRobot :: real robot) = Some s' \<and>
      list_all snd (new_accesses vpROSRobot s')) \<and>
   (\<exists>r pose' s'. getPosition (\<lambda>(x, y, z, w). (x, y, z)) REFERENCE_FRAME []
                    (vpROSRobot :: real robot) = Some (r, pose', s') \<and>
      list_all snd (new_accesses vpROSRobot s')) \<and>
   (\<exists>r dis' timestamp' s'.
      getDisplacement REFERENCE_FRAME [] \<lparr>tv_sec = 0, tv_nsec = 0\<rparr> (vpROSRobot :: real robot)
        = Some (r, dis', timestamp', s') \<and>
      list_all (\<lambda>(a, h). h = (field_of a \<noteq> DisplacementBaseline)) (new_accesses vpROSRobot s'))"
proof -
  have free: "odom_mutex (vpROSRobot :: real robot)" by (simp add: vpROSRobot_def)
  from accesses_under_guard_except_baseline [OF free] free show ?thesis by blast
qed

text \<open>
  C3, as the specification states it, fails: the accesses of one \<open>getDisplacement\<close> on a
  new object, each with the guard held or not.
\<close>

theorem baseline_outside_guard_counterexample:
  "map_option (accesses \<circ> snd \<circ> snd \<circ> snd)
     (getDisplacement REFERENCE_FRAME [] \<lparr>tv_sec = 0, tv_nsec = 0\<rparr> (vpROSRobot :: real robot)) =
   Some [(Rd DisplacementAccumulator, True), (Rd LastSampleTime, True),
         (Rd DisplacementBaseline, False), (Wr DisplacementBaseline, False)]"
  by (simp add: getDisplacement_reference vpROSRobot_def)

section \<open>The consuming read\<close>

text \<open>
  C4, as the source has it. \<open>getDisplacement\<close> in the reference frame returns, row by
  row, the accumulator minus the baseline (one subtraction of \<^verbatim>\<open>double\<close> for each row) and
  makes the accumulator the new baseline. A second call with no sample in between
  returns, row by row, the accumulator minus itself. After any samples delivered to a new
  object the first call returns six rows, each the accumulator minus zero.
\<close>

theorem getDisplacement_consuming_read:
  fixes s :: "'d::{zero,one,plus,minus,times,inverse} robot"
  assumes "odom_mutex s"
  shows "(\<exists>dis1 timestamp1 s1 dis2 timestamp2 s2.
            getDisplacement REFERENCE_FRAME dis timestamp s =
              Some (Inr (), dis1, timestamp1, s1) \<and>
            length dis1 = min (length (displacement s)) (length (pose_prev s)) \<and>
            (\<forall>i < length dis1. dis1 ! i = displacement s ! i - pose_prev s ! i) \<and>
            pose_prev s1 = displacement s \<and> displacement s1 = displacement s \<and>
            getDisplacement REFERENCE_FRAME dis' timestamp' s1 =
              Some (Inr (), dis2, timestamp2, s2) \<and>
            length dis2 = length (displacement s) \<and>
            (\<forall>i < length dis2. dis2 ! i = displacement s ! i - displacement s ! i)) \<and>
         (\<exists>s0 dis1 timestamp1 s1.
            deliver dbl msgs (vpROSRobot :: 'd robot) = Some s0 \<and>
            getDisplacement REFERENCE_FRAME dis timestamp s0 =
              Some (Inr (), dis1, timestamp1, s1) \<and>
            length dis1 = 6 \<and>
            (\<forall>i < 6. dis1 ! i = displacement s0 ! i - 0))"
proof -
  have first: "\<exists>dis1 timestamp1 s1 dis2 timestamp2 s2.
            getDisplacement REFERENCE_FRAME dis timestamp s =
              Some (Inr (), dis1, timestamp1, s1) \<and>
            length dis1 = min (length (displacement s)) (length (pose_prev s)) \<and>
            (\<forall>i < length dis1. dis1 ! i = displacement s ! i - pose_prev s ! i) \<and>
            pose_prev s1 = displacement s \<and> displacement s1 = displacement s \<and>
            getDisplacement REFERENCE_FRAME dis' timestamp' s1 =
              Some (Inr (), dis2, timestamp2, s2) \<and>
            length dis2 = length (displacement s) \<and>
            (\<forall>i < length dis2. dis2 ! i = displacement s ! i - displacement s ! i)"
    using assms
    by (simp add: getDisplacement_reference length_vpColVector_minus vpColVector_minus_nth)
  have "odom_mutex (vpROSRobot :: 'd robot)" by (simp add: vpROSRobot_def)
  from deliver_invariants [OF this, of dbl msgs]
  obtain s0 where s0: "deliver dbl msgs (vpROSRobot :: 'd robot) = Some s0" "odom_mutex s0"
    "pose_prev s0 = pose_prev (vpROSRobot :: 'd robot)"
    "length (displacement s0) = length (displacement (vpROSRobot :: 'd robot))"
    by blast
  have base: "pose_prev s0 = replicate 6 0" and len: "length (displacement s0) = 6"
    using s0(3,4) by (simp_all add: vpROSRobot_def)
  have "\<exists>dis1 timestamp1 s1. getDisplacement REFERENCE_FRAME dis timestamp s0 =
              Some (Inr (), dis1, timestamp1, s1) \<and>
            length dis1 = 6 \<and> (\<forall>i < 6. dis1 ! i = displacement s0 ! i - 0)"
    using s0(2) base len
    by (simp add: getDisplacement_reference length_vpColVector_minus vpColVector_minus_nth)
  with s0(1) first show ?thesis by blast
qed

text \<open>
  In exact arithmetic: an accumulator of \<open>[1, 0, 0, 0, 0, 2]\<close> over a zero baseline is
  returned as it is and then as zeros, and after the samples at 1 s and 2 s (1 along x)
  the first read returns \<open>[1, 0, 0, 0, 0, 0]\<close>.
\<close>

theorem getDisplacement_consuming_read_witness:
  "odom_mutex ((vpROSRobot :: real robot)\<lparr>displacement := [1, 0, 0, 0, 0, 2]\<rparr>) \<and>
   getDisplacement_twice ((vpROSRobot :: real robot)\<lparr>displacement := [1, 0, 0, 0, 0, 2]\<rparr>)
     = Some ([1, 0, 0, 0, 0, 2], [0, 0, 0, 0, 0, 0]) \<and>
   (\<exists>dis1 timestamp1 s1 dis2 timestamp2 s2.
      getDisplacement REFERENCE_FRAME [] \<lparr>tv_sec = 0, tv_nsec = 0\<rparr>
          ((vpROSRobot :: real robot)\<lparr>displacement := [1, 0, 0, 0, 0, 2]\<rparr>) =
        Some (Inr (), dis1, timestamp1, s1) \<and>
      length dis1 = 6 \<and> dis1 ! 5 = 2 - 0 \<and>
      getDisplacement REFERENCE_FRAME [] \<lparr>tv_sec = 0, tv_nsec = 0\<rparr> s1 =
        Some (Inr (), dis2, timestamp2, s2) \<and>
      length dis2 = 6 \<and> dis2 ! 5 = 2 - 2) \<and>
   (\<exists>s0 dis1 timestamp1 s1.
      deliver exact [sample_at 1 (0, 0, 0) (0, 0, 0), sample_at 2 (1, 0, 0) (0, 0, 0)] vpROSRobot
        = Some s0 \<and>
      displacement s0 = [1, 0, 0, 0, 0, 0] \<and>
      getDisplacement REFERENCE_FRAME [] \<lparr>tv_sec = 0, tv_nsec = 0\<rparr> s0 =
        Some (Inr (), dis1, timestamp1, s1) \<and>
      length dis1 = 6 \<and> dis1 ! 0 = 1 - 0)"
proof -
  let ?s = "(vpROSRobot :: real robot)\<lparr>displacement := [1, 0, 0, 0, 0, 2]\<rparr>"
  let ?msgs = "[sample_at 1 (0, 0, 0) (0, 0, 0), sample_at 2 (1, 0, 0) (0, 0, 0 :: real)]"
  let ?ts = "\<lparr>tv_sec = 0, tv_nsec = 0\<rparr>"
  have free: "odom_mutex ?s" by (simp add: vpROSRobot_def)
  have acc: "displacement ?s = [1, 0, 0, 0, 0, 2]" and base: "pose_prev ?s = [0, 0, 0, 0, 0, 0]"
    by (simp_all add: vpROSRobot_def replicate_six)
  have twice: "getDisplacement_twice ?s = Some ([1, 0, 0, 0, 0, 2], [0, 0, 0, 0, 0, 0])"
    by (simp add: getDisplacement_twice_def getDisplacement_reference vpColVector_minus_def
        vpROSRobot_def replicate_six)
  have run: "map_option displacement (deliver exact ?msgs vpROSRobot) = Some [1, 0, 0, 0, 0, 0]"
    by (simp add: run_simps)
  from getDisplacement_consuming_read [OF free, of "[]" ?ts "[]" ?ts exact ?msgs]
  show ?thesis using free acc base twice run by auto
qed

text \<open>
  C4, as the specification states it, fails for a state with an infinite component. The
  sample at 2 s carries an infinite velocity along x; the accumulator is then infinite in
  its first row, the first read returns it, and the second read returns NaN there, not
  zero: infinity minus infinity.
\<close>

theorem second_read_not_zero_counterexample:
  "Option.bind
     (deliver ext_of [sample_at 1 (0, 0, 0) (0, 0, 0), sample_at 2 (PInf, 0, 0) (0, 0, 0)]
        vpROSRobot)
     getDisplacement_twice
   = Some ([PInf, 0, 0, 0, 0, 0], [NaN, 0, 0, 0, 0, 0])"
  by (simp add: run_simps getDisplacement_twice_def getDisplacement_reference
      vpColVector_minus_def ext_of_def zero_ext_def one_ext_def)

end
